theory Spec2Isabelle
  imports Complex_Main
begin

section \<open>The ERD generator \<^verbatim>\<open>database/docs/generate-erd.py\<close>\<close>

text \<open>
  The script draws a fixed entity-relationship diagram with Pillow. Its module-level
  tables (\<^verbatim>\<open>entities\<close>, \<^verbatim>\<open>positions\<close>, \<^verbatim>\<open>notes\<close>) are read by every helper; here
  each helper takes the tables it reads as arguments, and the script's own tables are
  the constants \<open>entities\<close>, \<open>positions\<close> and \<open>note_list\<close> (the script's \<^verbatim>\<open>notes\<close>) below. A Python \<^verbatim>\<open>dict\<close>
  literal is an association list in insertion order (iteration walks the list, a lookup
  is \<^const>\<open>map_of\<close>); the keys of the script's tables are distinct.

  Numbers: the tables hold Python integers (\<^typ>\<open>int\<close>). A fraction and every
  coordinate computed from one is a Python \<^verbatim>\<open>float\<close>; these are modelled by exact
  \<^typ>\<open>real\<close> arithmetic, so rounding of binary floating point is not part of
  the model.
\<close>

subsection \<open>Configuration (lines 7-24)\<close>

definition CANVAS_W :: int where "CANVAS_W = 3200"
definition CANVAS_H :: int where "CANVAS_H = 2500"
definition BG :: string where "BG = ''#ffffff''"
definition HEADER_GREEN :: string where "HEADER_GREEN = ''#90ee90''"
definition FK_PINK :: string where "FK_PINK = ''#ffcccc''"
definition ROW_WHITE :: string where "ROW_WHITE = ''#f8fff8''"
definition BORDER :: string where "BORDER = ''#888888''"
definition NOTE_BG :: string where "NOTE_BG = ''#ffffcc''"
definition NOTE_BORDER :: string where "NOTE_BORDER = ''#cccc88''"
definition LINE_COLOR :: string where "LINE_COLOR = ''#555555''"

definition FONT_SIZE :: nat where "FONT_SIZE = 16"
definition HEADER_FONT_SIZE :: nat where "HEADER_FONT_SIZE = 18"
definition NOTE_FONT_SIZE :: nat where "NOTE_FONT_SIZE = 14"
definition COL_W :: int where "COL_W = 220"
definition TYPE_W :: int where "TYPE_W = 100"
definition BOX_W :: int where "BOX_W = COL_W + TYPE_W"
definition ROW_H :: int where "ROW_H = 24"
definition HEADER_H :: int where "HEADER_H = 30"

text \<open>
  Lines 26-33 bind three font variables. A draw call names the variable it passes;
  the font it draws with is what the variable holds.
\<close>

datatype font_var = font | font_bold | font_note

text \<open>
  The \<^verbatim>\<open>try\<close> block loads \<^verbatim>\<open>arial.ttf\<close> at size 16, \<^verbatim>\<open>arialbd.ttf\<close> at size 18 and
  \<^verbatim>\<open>arial.ttf\<close> at size 14. When any of the three calls raises, the bare \<^verbatim>\<open>except\<close>
  binds all three variables to the one default font. Whether \<^verbatim>\<open>ImageFont.truetype\<close> can
  load a file depends on the machine: it is the argument \<open>loads\<close>.
\<close>

datatype font_face = TrueType string nat | DefaultFont

definition load_fonts :: "(string \<Rightarrow> bool) \<Rightarrow> font_var \<Rightarrow> font_face" where
  "load_fonts loads v =
     (if loads ''arial.ttf'' \<and> loads ''arialbd.ttf'' then
        (case v of
           font \<Rightarrow> TrueType ''arial.ttf'' FONT_SIZE
         | font_bold \<Rightarrow> TrueType ''arialbd.ttf'' HEADER_FONT_SIZE
         | font_note \<Rightarrow> TrueType ''arial.ttf'' NOTE_FONT_SIZE)
      else DefaultFont)"

subsection \<open>Data model\<close>

type_synonym attribute = "string \<times> string \<times> bool"
type_synonym entity_table = "(string \<times> attribute list) list"
type_synonym position_table = "(string \<times> int \<times> int) list"
type_synonym note_entry = "int \<times> int \<times> int \<times> string list"
type_synonym point = "real \<times> real"

text \<open>
  What the script can raise: \<^verbatim>\<open>KeyError\<close> from a dictionary lookup with the missing key,
  \<^verbatim>\<open>TypeError\<close> from subscripting \<^verbatim>\<open>None\<close> or from handing \<^verbatim>\<open>None\<close> to Pillow as a
  coordinate.
\<close>

datatype error = KeyError string | TypeError

definition bind_err :: "error + 'a \<Rightarrow> ('a \<Rightarrow> error + 'b) \<Rightarrow> error + 'b" where
  "bind_err m f = (case m of Inl e \<Rightarrow> Inl e | Inr v \<Rightarrow> f v)"

definition getitem :: "(string \<times> 'v) list \<Rightarrow> string \<Rightarrow> error + 'v" where
  "getitem d k = (case map_of d k of None \<Rightarrow> Inl (KeyError k) | Some v \<Rightarrow> Inr v)"

subsection \<open>The script's tables (lines 36-183)\<close>

definition entities :: entity_table where
  "entities = [
    (''Resource'', [
      (''id'', ''int'', False), (''toolID'', ''int'', True), (''conversationID'', ''int'', False),
      (''messageID'', ''int'', False), (''name'', ''string'', False), (''description'', ''string'', False),
      (''metadata'', ''jsonb'', False), (''s3Uri'', ''string'', False), (''createdAt'', ''datetime'', False),
      (''updatedAt'', ''datetime'', False), (''MIMEType'', ''string'', False), (''content'', ''string'', False)]),
    (''Vector'', [
      (''id'', ''int'', False), (''toolID'', ''int'', True), (''resourceID'', ''int'', False),
      (''order'', ''int'', False), (''embedding'', ''jsonb'', False), (''content'', ''string'', False),
      (''createdAt'', ''datetime'', False), (''updatedAt'', ''datetime'', False), (''conversationID'', ''int'', False)]),
    (''Message'', [
      (''id'', ''int'', False), (''conversationID'', ''int'', False), (''serialNumber'', ''int'', False),
      (''role'', ''string'', False), (''content'', ''jsonb'', False), (''tokens'', ''int'', False),
      (''createdAt'', ''datetime'', False), (''updatedAt'', ''datetime'', False)]),
    (''Conversation'', [
      (''id'', ''int'', False), (''agentID'', ''int'', False), (''userID'', ''int'', False),
      (''deleted'', ''boolean'', False), (''deletedAt'', ''datetime'', False),
      (''createdAt'', ''datetime'', False), (''updatedAt'', ''datetime'', False),
      (''title'', ''string'', False), (''latestSummarySN'', ''int'', False)]),
    (''User'', [
      (''id'', ''int'', False), (''firstName'', ''string'', False), (''lastName'', ''string'', False),
      (''email'', ''string'', False), (''roleId'', ''int'', False), (''createdAt'', ''datetime'', False),
      (''updatedAt'', ''datetime'', False), (''status'', ''string'', False), (''apiKey'', ''string'', False),
      (''budget'', ''float'', False), (''remaining'', ''float'', False)]),
    (''Roles'', [
      (''id'', ''int'', False), (''name'', ''string'', False), (''displayOrder'', ''int'', False),
      (''createdAt'', ''datetime'', False), (''updatedAt'', ''datetime'', False)]),
    (''RolePolicy'', [
      (''roleID'', ''int'', False), (''policyID'', ''int'', False),
      (''createdAt'', ''datetime'', False), (''updatedAt'', ''datetime'', False)]),
    (''Policy'', [
      (''id'', ''int'', False), (''name'', ''string'', False), (''resource'', ''string'', False),
      (''action'', ''string'', False), (''createdAt'', ''datetime'', False), (''updatedAt'', ''datetime'', False)]),
    (''Agent'', [
      (''id'', ''int'', False), (''name'', ''string'', False), (''description'', ''string'', False),
      (''promptId'', ''int'', False), (''modelID'', ''int'', False), (''modelParameters'', ''jsonb'', False),
      (''createdAt'', ''datetime'', False), (''updatedAt'', ''datetime'', False), (''creatorID'', ''int'', False)]),
    (''Prompt'', [
      (''id'', ''int'', False), (''agentID'', ''int'', False), (''version'', ''int'', False),
      (''content'', ''string'', False), (''createdAt'', ''datetime'', False),
      (''updatedAt'', ''datetime'', False), (''name'', ''string'', False)]),
    (''Model'', [
      (''id'', ''int'', False), (''name'', ''string'', False), (''type'', ''string'', False),
      (''description'', ''string'', False), (''providerId'', ''int'', False),
      (''createdAt'', ''datetime'', False), (''updatedAt'', ''datetime'', False),
      (''internalName'', ''string'', False), (''summarizeThreshold'', ''int'', False),
      (''defaultParameters'', ''jsonb'', False), (''maxContext'', ''int'', False),
      (''maxOutput'', ''int'', False), (''maxReasoning'', ''int'', False),
      (''cost1kInput'', ''float'', False), (''cost1KOutput'', ''float'', False),
      (''cost1kCacheReason'', ''float'', False), (''cost1kCacheWrite'', ''float'', False)]),
    (''Providers'', [
      (''id'', ''int'', False), (''name'', ''string'', False), (''apiKey'', ''string'', False),
      (''endpoint'', ''string'', False), (''createdAt'', ''datetime'', False), (''updatedAt'', ''datetime'', False)]),
    (''Tool'', [
      (''id'', ''int'', False), (''name'', ''string'', False), (''description'', ''string'', False),
      (''type'', ''string'', False), (''authenticationType'', ''string'', False),
      (''endpoint'', ''string'', False), (''transportType'', ''string'', False),
      (''customConfig'', ''jsonb'', False), (''createdAt'', ''datetime'', False), (''updatedAt'', ''datetime'', False)]),
    (''UserAgent'', [
      (''userID'', ''int'', False), (''agentID'', ''int'', False), (''role'', ''string'', False),
      (''createdAt'', ''datetime'', False), (''updatedAt'', ''datetime'', False)]),
    (''UserTool'', [
      (''userID'', ''int'', False), (''toolID'', ''int'', False), (''credential'', ''jsonb'', False),
      (''createdAt'', ''datetime'', False), (''updatedAt'', ''datetime'', False)]),
    (''AgentTool'', [
      (''toolID'', ''int'', False), (''agentID'', ''int'', False),
      (''createdAt'', ''datetime'', False), (''updatedAt'', ''datetime'', False)]),
    (''Usages'', [
      (''id'', ''int'', False), (''type'', ''string'', True), (''userID'', ''int'', False),
      (''agentID'', ''int'', False), (''messageID'', ''int'', False), (''modelId'', ''int'', False),
      (''inputTokens'', ''float'', False), (''outputtokens'', ''float'', False),
      (''cacheReadToken'', ''float'', False), (''cacheWriteToken'', ''float'', False),
      (''cost'', ''float'', False), (''createdAt'', ''datetime'', False), (''updatedAt'', ''datetime'', False)]),
    (''Sessions'', [
      (''sid'', ''string'', False), (''expires'', ''datetime'', False), (''data'', ''string'', False),
      (''createdAt'', ''datetime'', False), (''updatedAt'', ''datetime'', False)])]"

definition positions :: position_table where
  "positions = [
    (''Message'', (80, 500)),
    (''Roles'', (80, 1050)),
    (''RolePolicy'', (80, 1260)),
    (''Policy'', (80, 1480)),
    (''Resource'', (470, 30)),
    (''Conversation'', (470, 460)),
    (''User'', (470, 840)),
    (''Vector'', (860, 30)),
    (''Agent'', (860, 370)),
    (''UserAgent'', (860, 760)),
    (''UserTool'', (860, 940)),
    (''Usages'', (860, 1180)),
    (''Prompt'', (1610, 60)),
    (''Model'', (1610, 340)),
    (''AgentTool'', (1610, 790)),
    (''Providers'', (2000, 60)),
    (''Tool'', (2000, 640)),
    (''Sessions'', (2000, 1020))]"

definition note_list :: "note_entry list" where
  "note_list = [
    (80, 700, 310, [''role: ['system', 'user', 'assistant', 'tool']'']),
    (470, 1130, 310, [''status: ['Active', 'Inactive', 'Disabled']'']),
    (80, 1190, 300, [''name: ['Admin', 'Super User', 'User']'']),
    (1610, 790, 310, [''type: ['chat', 'embedding', 'reranking']'']),
    (2000, 920, 240, [''type: ['MCP', 'custom']'']),
    (860, 1520, 310, [''type: ['user', 'agent', 'guardrail']'']),
    (860, 910, 280, [''role: ['admin', 'user']'']),
    (1250, 640, 250, [
      ''Model Parameters'',
      ''  temperature'', ''  maxToken'', ''  topP'', ''  topK'', ''  ...'']),
    (2000, 1200, 290, [
      ''Configuration'',
      ''  McpType'', ''  embeddingModelID'', ''  rerankingModelID'',
      ''  chunkSize'', ''  overlap'', ''  retrieveTopN'', ''  rerankTopN'', ''  ...'',
      [], ''McpType: ['knowledgebase','', ''  'API', 'database']''])]"

subsection \<open>Geometry (lines 187-208)\<close>

definition entity_h :: "entity_table \<Rightarrow> string \<Rightarrow> error + int" where
  "entity_h ents name =
     bind_err (getitem ents name) (\<lambda>cols.
     Inr (HEADER_H + int (length cols) * ROW_H + 2))"

definition box :: "entity_table \<Rightarrow> position_table \<Rightarrow> string \<Rightarrow> error + (int \<times> int \<times> int \<times> int)" where
  "box ents poss name =
     bind_err (getitem poss name) (\<lambda>(x, y).
     bind_err (entity_h ents name) (\<lambda>h.
     Inr (x, y, x + BOX_W, y + h)))"

text \<open>
  Lines 201-208 of \<^verbatim>\<open>edge\<close>: the \<^verbatim>\<open>if\<close>/\<^verbatim>\<open>elif\<close> chain over the unpacked box. A side
  that is none of the four letters falls off the end of the function, which returns
  \<^verbatim>\<open>None\<close>. The default \<^verbatim>\<open>frac=0.5\<close> is never used: every call passes a fraction.
\<close>

definition edge_of_box :: "int \<times> int \<times> int \<times> int \<Rightarrow> string \<Rightarrow> real \<Rightarrow> point option" where
  "edge_of_box b side fr = (case b of (x1, y1, x2, y2) \<Rightarrow>
     if side = ''L'' then Some (of_int x1, of_int y1 + of_int (y2 - y1) * fr)
     else if side = ''R'' then Some (of_int x2, of_int y1 + of_int (y2 - y1) * fr)
     else if side = ''T'' then Some (of_int x1 + of_int (x2 - x1) * fr, of_int y1)
     else if side = ''B'' then Some (of_int x1 + of_int (x2 - x1) * fr, of_int y2)
     else None)"

definition edge :: "entity_table \<Rightarrow> position_table \<Rightarrow> string \<Rightarrow> string \<Rightarrow> real \<Rightarrow> error + point option" where
  "edge ents poss name side fr =
     bind_err (box ents poss name) (\<lambda>b. Inr (edge_of_box b side fr))"

subsection \<open>The canvas\<close>

text \<open>
  The drawing context is the list of the calls it has received, oldest first: Pillow
  paints each call over what is already there, so a later call lies on top. A call
  holds the arguments the script passes (\<open>None\<close> for a \<^verbatim>\<open>fill\<close>, \<^verbatim>\<open>outline\<close> or
  \<^verbatim>\<open>width\<close> it leaves out). The image starts empty (line 421).
\<close>

datatype draw_call =
    Rectangle real real real real "string option" "string option"
  | Line point point string "int option"
  | Text point string string font_var

type_synonym canvas = "draw_call list"

abbreviation ri :: "int \<Rightarrow> real" where "ri \<equiv> real_of_int"

subsection \<open>Entities and notes (lines 210-236)\<close>

fun draw_columns :: "canvas \<Rightarrow> int \<Rightarrow> int \<Rightarrow> nat \<Rightarrow> attribute list \<Rightarrow> canvas" where
  "draw_columns c x y i [] = c"
| "draw_columns c x y i ((col_name, col_type, is_fk) # cols) =
     (let ry = y + HEADER_H + int i * ROW_H;
          bg = (if is_fk then FK_PINK else ROW_WHITE)
      in draw_columns
           (c @ [Rectangle (ri x) (ri ry) (ri (x + BOX_W)) (ri (ry + ROW_H)) (Some bg) (Some BORDER),
                 Line (ri (x + COL_W), ri ry) (ri (x + COL_W), ri (ry + ROW_H)) BORDER None,
                 Text (ri (x + 6), ri (ry + 3)) col_name ''black'' font,
                 Text (ri (x + COL_W + 6), ri (ry + 3)) col_type ''black'' font])
           x y (Suc i) cols)"

definition draw_entity :: "entity_table \<Rightarrow> position_table \<Rightarrow> canvas \<Rightarrow> string \<Rightarrow> error + canvas" where
  "draw_entity ents poss c name =
     bind_err (getitem poss name) (\<lambda>(x, y).
     bind_err (getitem ents name) (\<lambda>cols.
     bind_err (entity_h ents name) (\<lambda>h.
     Inr (draw_columns
            (c @ [Rectangle (ri (x + 3)) (ri (y + 3)) (ri (x + BOX_W + 3)) (ri (y + h + 3)) (Some ''#dddddd'') None,
                  Rectangle (ri x) (ri y) (ri (x + BOX_W)) (ri (y + HEADER_H)) (Some HEADER_GREEN) (Some BORDER),
                  Text (ri (x + 8), ri (y + 5)) name ''black'' font_bold])
            x y 0 cols
          @ [Rectangle (ri x) (ri y) (ri (x + BOX_W)) (ri (y + h)) None (Some BORDER)]))))"

definition startswith :: "string \<Rightarrow> string \<Rightarrow> bool" where
  "startswith s prefix = (take (length prefix) s = prefix)"

text \<open>
  The conditional expression of line 235. \<^verbatim>\<open>":" in line\<close> and \<^verbatim>\<open>"[" in line\<close> search
  for a one-character substring, which is membership of the character.
\<close>

definition note_font :: "nat \<Rightarrow> string \<Rightarrow> font_var" where
  "note_font i line =
     (if i = 0 \<and> \<not> startswith line '' '' \<and> CHR '':'' \<notin> set line \<and> CHR ''['' \<notin> set line
      then font_bold else font_note)"

fun draw_note_lines :: "canvas \<Rightarrow> int \<Rightarrow> int \<Rightarrow> nat \<Rightarrow> string list \<Rightarrow> canvas" where
  "draw_note_lines c x y i [] = c"
| "draw_note_lines c x y i (line # lines) =
     draw_note_lines
       (c @ [Text (ri (x + 8), ri (y + 6 + int i * 20)) line ''#333333'' (note_font i line)])
       x y (Suc i) lines"

definition draw_note :: "canvas \<Rightarrow> int \<Rightarrow> int \<Rightarrow> int \<Rightarrow> string list \<Rightarrow> canvas" where
  "draw_note c x y w lines =
     (let h = int (length lines) * 20 + 12
      in draw_note_lines
           (c @ [Rectangle (ri x) (ri y) (ri (x + w)) (ri (y + h)) (Some NOTE_BG) (Some NOTE_BORDER)])
           x y 0 lines)"

subsection \<open>End marks and polylines (lines 238-270)\<close>

definition draw_one_mark :: "canvas \<Rightarrow> real \<Rightarrow> real \<Rightarrow> string \<Rightarrow> canvas" where
  "draw_one_mark c x y direction =
     (let sz = 8
      in if direction = ''H''
         then c @ [Line (x, y - sz) (x, y + sz) LINE_COLOR (Some 2)]
         else c @ [Line (x - sz, y) (x + sz, y) LINE_COLOR (Some 2)])"

definition draw_crow_foot :: "canvas \<Rightarrow> real \<Rightarrow> real \<Rightarrow> string \<Rightarrow> canvas" where
  "draw_crow_foot c x y toward =
     (let sz = 10; sp = 7
      in if toward = ''L'' then
           c @ [Line (x, y) (x + sz, y - sp) LINE_COLOR (Some 2),
                Line (x, y) (x + sz, y) LINE_COLOR (Some 2),
                Line (x, y) (x + sz, y + sp) LINE_COLOR (Some 2)]
         else if toward = ''R'' then
           c @ [Line (x, y) (x - sz, y - sp) LINE_COLOR (Some 2),
                Line (x, y) (x - sz, y) LINE_COLOR (Some 2),
                Line (x, y) (x - sz, y + sp) LINE_COLOR (Some 2)]
         else if toward = ''U'' then
           c @ [Line (x, y) (x - sp, y + sz) LINE_COLOR (Some 2),
                Line (x, y) (x, y + sz) LINE_COLOR (Some 2),
                Line (x, y) (x + sp, y + sz) LINE_COLOR (Some 2)]
         else if toward = ''D'' then
           c @ [Line (x, y) (x - sp, y - sz) LINE_COLOR (Some 2),
                Line (x, y) (x, y - sz) LINE_COLOR (Some 2),
                Line (x, y) (x + sp, y - sz) LINE_COLOR (Some 2)]
         else c)"

text \<open>
  \<^verbatim>\<open>draw_ortho_line\<close> hands each pair of neighbouring points to Pillow's \<^verbatim>\<open>line\<close>. A
  point is what \<^verbatim>\<open>edge\<close> returned or a waypoint, so it can be \<^verbatim>\<open>None\<close>; Pillow rejects
  a coordinate that is not a pair of numbers.
\<close>

fun draw_ortho_line :: "canvas \<Rightarrow> point option list \<Rightarrow> error + canvas" where
  "draw_ortho_line c (p # q # ps) =
     (case (p, q) of
        (Some a, Some b) \<Rightarrow> draw_ortho_line (c @ [Line a b LINE_COLOR (Some 1)]) (q # ps)
      | _ \<Rightarrow> Inl TypeError)"
| "draw_ortho_line c ps = Inr c"

subsection \<open>Routes (lines 278-388)\<close>

text \<open>
  A route is the 9-tuple
  \<^verbatim>\<open>(src, src_side, src_frac, tgt, tgt_side, tgt_frac, waypoints, one_dir, crow_dir)\<close>.
\<close>

datatype route = Route
  (src: string) (src_side: string) (src_frac: real)
  (tgt: string) (tgt_side: string) (tgt_frac: real)
  (waypoints: "point list") (one_dir: string) (crow_dir: string)

text \<open>
  \<^verbatim>\<open>p[0]\<close> and \<^verbatim>\<open>p[1]\<close> raise \<^verbatim>\<open>TypeError\<close> when \<^verbatim>\<open>p\<close> is \<^verbatim>\<open>None\<close>. \<open>unpack\<close> stands
  where the script first subscripts a point; the later subscripts of the same point
  cannot fail.
\<close>

definition unpack :: "point option \<Rightarrow> error + point" where
  "unpack p = (case p of None \<Rightarrow> Inl TypeError | Some xy \<Rightarrow> Inr xy)"

fun collect :: "(error + 'a) list \<Rightarrow> error + 'a list" where
  "collect [] = Inr []"
| "collect (m # ms) = bind_err m (\<lambda>v. bind_err (collect ms) (\<lambda>vs. Inr (v # vs)))"

text \<open>
  \<^verbatim>\<open>routes()\<close> appends one tuple after the other; the first call of \<^verbatim>\<open>edge\<close> or
  subscript that raises ends it. The function it calls for an anchor is the argument
  \<open>e\<close>, so that statements can range over what \<^verbatim>\<open>routes()\<close> asks of \<^verbatim>\<open>edge\<close>; the
  script's \<^verbatim>\<open>routes()\<close> is \<open>routes\<close> below.
\<close>

definition routes_with :: "(string \<Rightarrow> string \<Rightarrow> real \<Rightarrow> error + point option) \<Rightarrow> error + route list" where
  "routes_with e = collect [
     Inr (Route ''Conversation'' ''L'' 0.3 ''Message'' ''R'' 0.3 [] ''H'' ''R''),
     Inr (Route ''Agent'' ''L'' 0.15 ''Conversation'' ''R'' 0.15 [] ''H'' ''L''),
     Inr (Route ''Conversation'' ''B'' 0.3 ''User'' ''T'' 0.3 [] ''V'' ''D''),
     Inr (Route ''Conversation'' ''T'' 0.3 ''Resource'' ''B'' 0.3 [] ''V'' ''U''),
     bind_err (e ''Conversation'' ''T'' 0.7) (\<lambda>cv_s.
     bind_err (e ''Vector'' ''B'' 0.3) (\<lambda>cv_e.
     bind_err (unpack cv_s) (\<lambda>cv_s.
     bind_err (unpack cv_e) (\<lambda>cv_e.
     Inr (Route ''Conversation'' ''T'' 0.7 ''Vector'' ''B'' 0.3 [(fst cv_s, snd cv_e)] ''V'' ''U''))))),
     Inr (Route ''Resource'' ''R'' 0.15 ''Vector'' ''L'' 0.15 [] ''H'' ''L''),
     bind_err (e ''Resource'' ''R'' 0.05) (\<lambda>rs.
     bind_err (e ''Tool'' ''L'' 0.05) (\<lambda>re.
     bind_err (unpack rs) (\<lambda>rs.
     bind_err (unpack re) (\<lambda>re.
     let mid_y = min (snd rs) (snd re) - 15
     in Inr (Route ''Resource'' ''R'' 0.05 ''Tool'' ''L'' 0.05
          [(fst rs + 10, snd rs), (fst rs + 10, mid_y), (fst re - 10, mid_y), (fst re - 10, snd re)]
          ''H'' ''L''))))),
     bind_err (e ''Vector'' ''R'' 0.05) (\<lambda>vs.
     bind_err (e ''Tool'' ''L'' 0.15) (\<lambda>ve.
     bind_err (unpack vs) (\<lambda>vs.
     bind_err (unpack ve) (\<lambda>ve.
     let mid_y2 = min (snd vs) (snd ve) - 30
     in Inr (Route ''Vector'' ''R'' 0.05 ''Tool'' ''L'' 0.15
          [(fst vs + 10, snd vs), (fst vs + 10, mid_y2), (fst ve - 10, mid_y2), (fst ve - 10, snd ve)]
          ''H'' ''L''))))),
     bind_err (e ''Message'' ''T'' 0.7) (\<lambda>ms.
     bind_err (e ''Resource'' ''B'' 0.7) (\<lambda>mre.
     bind_err (unpack ms) (\<lambda>ms.
     bind_err (unpack mre) (\<lambda>mre.
     Inr (Route ''Message'' ''T'' 0.7 ''Resource'' ''B'' 0.7
          [(fst ms, snd mre + 15), (fst mre, snd mre + 15)] ''V'' ''U''))))),
     Inr (Route ''Agent'' ''R'' 0.2 ''Prompt'' ''L'' 0.5 [] ''H'' ''L''),
     bind_err (e ''Agent'' ''R'' 0.35) (\<lambda>as1.
     bind_err (e ''Model'' ''L'' 0.15) (\<lambda>ae1.
     bind_err (unpack as1) (\<lambda>as1.
     bind_err (unpack ae1) (\<lambda>ae1.
     Inr (Route ''Agent'' ''R'' 0.35 ''Model'' ''L'' 0.15
          [(fst as1 + 60, snd as1), (fst as1 + 60, snd ae1)] ''H'' ''L''))))),
     Inr (Route ''User'' ''T'' 0.7 ''Agent'' ''B'' 0.7 [] ''V'' ''U''),
     bind_err (e ''Providers'' ''B'' 0.3) (\<lambda>p1. bind_err (unpack p1) (\<lambda>p1.
     bind_err (e ''Model'' ''T'' 0.7) (\<lambda>p2. bind_err (unpack p2) (\<lambda>p2.
     bind_err (e ''Model'' ''T'' 0.7) (\<lambda>p3. bind_err (unpack p3) (\<lambda>p3.
     bind_err (e ''Model'' ''T'' 0.7) (\<lambda>p4. bind_err (unpack p4) (\<lambda>p4.
     Inr (Route ''Providers'' ''B'' 0.3 ''Model'' ''T'' 0.7
          [(fst p1, snd p2 - 15), (fst p3, snd p4 - 15)] ''V'' ''D''))))))))),
     Inr (Route ''User'' ''L'' 0.35 ''Roles'' ''R'' 0.3 [] ''H'' ''R''),
     Inr (Route ''Roles'' ''B'' 0.5 ''RolePolicy'' ''T'' 0.5 [] ''V'' ''D''),
     Inr (Route ''Policy'' ''T'' 0.5 ''RolePolicy'' ''B'' 0.5 [] ''V'' ''U''),
     Inr (Route ''User'' ''R'' 0.15 ''UserAgent'' ''L'' 0.3 [] ''H'' ''L''),
     Inr (Route ''Agent'' ''B'' 0.3 ''UserAgent'' ''T'' 0.3 [] ''V'' ''D''),
     bind_err (e ''User'' ''R'' 0.5) (\<lambda>us.
     bind_err (e ''UserTool'' ''L'' 0.3) (\<lambda>ue.
     bind_err (unpack us) (\<lambda>us.
     bind_err (unpack ue) (\<lambda>ue.
     Inr (Route ''User'' ''R'' 0.5 ''UserTool'' ''L'' 0.3
          [(fst us + 20, snd us), (fst us + 20, snd ue)] ''H'' ''L''))))),
     Inr (Route ''Tool'' ''L'' 0.7 ''UserTool'' ''R'' 0.3 [] ''H'' ''R''),
     Inr (Route ''Tool'' ''L'' 0.4 ''AgentTool'' ''R'' 0.3 [] ''H'' ''R''),
     bind_err (e ''Agent'' ''R'' 0.8) (\<lambda>ags.
     bind_err (e ''AgentTool'' ''L'' 0.3) (\<lambda>age.
     bind_err (unpack ags) (\<lambda>ags.
     bind_err (unpack age) (\<lambda>age.
     Inr (Route ''Agent'' ''R'' 0.8 ''AgentTool'' ''L'' 0.3
          [(fst ags + 30, snd ags), (fst ags + 30, snd age)] ''H'' ''L''))))),
     bind_err (e ''User'' ''B'' 0.7) (\<lambda>uus.
     bind_err (e ''Usages'' ''L'' 0.15) (\<lambda>uue.
     bind_err (unpack uus) (\<lambda>uus.
     bind_err (unpack uue) (\<lambda>uue.
     Inr (Route ''User'' ''B'' 0.7 ''Usages'' ''L'' 0.15 [(fst uus, snd uue)] ''V'' ''L''))))),
     bind_err (e ''Agent'' ''B'' 0.5) (\<lambda>q1. bind_err (unpack q1) (\<lambda>q1.
     bind_err (e ''Usages'' ''T'' 0.3) (\<lambda>q2. bind_err (unpack q2) (\<lambda>q2.
     bind_err (e ''Usages'' ''T'' 0.3) (\<lambda>q3. bind_err (unpack q3) (\<lambda>q3.
     bind_err (e ''Usages'' ''T'' 0.3) (\<lambda>q4. bind_err (unpack q4) (\<lambda>q4.
     Inr (Route ''Agent'' ''B'' 0.5 ''Usages'' ''T'' 0.3
          [(fst q1, snd q2 - 15), (fst q3, snd q4 - 15)] ''V'' ''U''))))))))),
     bind_err (e ''Message'' ''B'' 0.5) (\<lambda>mus.
     bind_err (e ''Usages'' ''L'' 0.35) (\<lambda>mue.
     bind_err (unpack mus) (\<lambda>mus.
     bind_err (unpack mue) (\<lambda>mue.
     Inr (Route ''Message'' ''B'' 0.5 ''Usages'' ''L'' 0.35 [(fst mus, snd mue)] ''V'' ''L''))))),
     bind_err (e ''Model'' ''B'' 0.3) (\<lambda>mds.
     bind_err (e ''Usages'' ''R'' 0.3) (\<lambda>mde.
     bind_err (unpack mds) (\<lambda>mds.
     bind_err (unpack mde) (\<lambda>mde.
     Inr (Route ''Model'' ''B'' 0.3 ''Usages'' ''R'' 0.3 [(fst mds, snd mde)] ''V'' ''R'')))))]"

definition routes :: "entity_table \<Rightarrow> position_table \<Rightarrow> error + route list" where
  "routes ents poss = routes_with (edge ents poss)"

subsection \<open>Relationships (lines 390-417)\<close>

text \<open>
  Lines 396-414: the one mark near the source anchor \<open>sp\<close>, for the route's
  \<^verbatim>\<open>src_side\<close> and \<^verbatim>\<open>one_dir\<close>.
\<close>

definition draw_source_mark :: "canvas \<Rightarrow> point option \<Rightarrow> string \<Rightarrow> string \<Rightarrow> error + canvas" where
  "draw_source_mark c sp side dir =
     (if dir = ''H'' then
        (if side = ''R'' then
           bind_err (unpack sp) (\<lambda>sp. Inr (draw_one_mark c (fst sp + 12) (snd sp) ''H''))
         else if side = ''L'' then
           bind_err (unpack sp) (\<lambda>sp. Inr (draw_one_mark c (fst sp - 12) (snd sp) ''H''))
         else if side = ''T'' then
           bind_err (unpack sp) (\<lambda>sp. Inr (draw_one_mark c (fst sp) (snd sp - 12) ''V''))
         else if side = ''B'' then
           bind_err (unpack sp) (\<lambda>sp. Inr (draw_one_mark c (fst sp) (snd sp + 12) ''V''))
         else Inr c)
      else
        (if side = ''B'' then
           bind_err (unpack sp) (\<lambda>sp. Inr (draw_one_mark c (fst sp) (snd sp + 12) ''V''))
         else if side = ''T'' then
           bind_err (unpack sp) (\<lambda>sp. Inr (draw_one_mark c (fst sp) (snd sp - 12) ''V''))
         else if side = ''R'' then
           bind_err (unpack sp) (\<lambda>sp. Inr (draw_one_mark c (fst sp + 12) (snd sp) ''H''))
         else if side = ''L'' then
           bind_err (unpack sp) (\<lambda>sp. Inr (draw_one_mark c (fst sp - 12) (snd sp) ''H''))
         else Inr c))"

text \<open>Line 393: the points of the polyline of a route.\<close>

definition route_points :: "point option \<Rightarrow> point list \<Rightarrow> point option \<Rightarrow> point option list" where
  "route_points sp wps tp = [sp] @ map Some wps @ [tp]"

definition draw_relationship :: "entity_table \<Rightarrow> position_table \<Rightarrow> canvas \<Rightarrow> route \<Rightarrow> error + canvas" where
  "draw_relationship ents poss c r =
     bind_err (edge ents poss (src r) (src_side r) (src_frac r)) (\<lambda>sp.
     bind_err (edge ents poss (tgt r) (tgt_side r) (tgt_frac r)) (\<lambda>tp.
     bind_err (draw_ortho_line c (route_points sp (waypoints r) tp)) (\<lambda>c1.
     bind_err (draw_source_mark c1 sp (src_side r) (one_dir r)) (\<lambda>c2.
     bind_err (unpack tp) (\<lambda>tp.
     Inr (draw_crow_foot c2 (fst tp) (snd tp) (crow_dir r)))))))"

subsection \<open>Main (lines 421-437)\<close>

fun draw_relationships :: "entity_table \<Rightarrow> position_table \<Rightarrow> canvas \<Rightarrow> route list \<Rightarrow> error + canvas" where
  "draw_relationships ents poss c [] = Inr c"
| "draw_relationships ents poss c (r # rs) =
     bind_err (draw_relationship ents poss c r) (\<lambda>c'. draw_relationships ents poss c' rs)"

fun draw_entities :: "entity_table \<Rightarrow> position_table \<Rightarrow> canvas \<Rightarrow> string list \<Rightarrow> error + canvas" where
  "draw_entities ents poss c [] = Inr c"
| "draw_entities ents poss c (name # names) =
     bind_err (draw_entity ents poss c name) (\<lambda>c'. draw_entities ents poss c' names)"

fun draw_notes :: "canvas \<Rightarrow> note_entry list \<Rightarrow> canvas" where
  "draw_notes c [] = c"
| "draw_notes c ((x, y, w, lines) # ns) = draw_notes (draw_note c x y w lines) ns"

text \<open>
  The three loops of lines 425-434 over a route list \<open>rs\<close>, on the empty image. The
  picture that \<^verbatim>\<open>img.save\<close> writes is the canvas returned.
\<close>

definition paint :: "entity_table \<Rightarrow> position_table \<Rightarrow> note_entry list \<Rightarrow> route list \<Rightarrow> error + canvas" where
  "paint ents poss nts rs =
     bind_err (draw_relationships ents poss [] rs) (\<lambda>c1.
     bind_err (draw_entities ents poss c1 (map fst ents)) (\<lambda>c2.
     Inr (draw_notes c2 nts)))"

definition main :: "error + canvas" where
  "main = bind_err (routes entities positions) (\<lambda>rs. paint entities positions note_list rs)"

subsection \<open>Vocabulary of the properties\<close>

text \<open>The four side letters that \<^verbatim>\<open>edge\<close> tests for.\<close>

definition side_letters :: "string set" where
  "side_letters = {''L'', ''R'', ''T'', ''B''}"


text \<open>
  A polyline is orthogonal when every two neighbouring points share a coordinate
  (\<^verbatim>\<open>x1 == x2 or y1 == y2\<close>).
\<close>

fun orthogonal :: "point list \<Rightarrow> bool" where
  "orthogonal (p # q # ps) = ((fst p = fst q \<or> snd p = snd q) \<and> orthogonal (q # ps))"
| "orthogonal ps = True"

text \<open>
  The polyline that \<^verbatim>\<open>draw_relationship\<close> draws for a route (lines 391-393) is
  orthogonal; a route whose anchors cannot be computed has none.
\<close>

definition route_orthogonal :: "entity_table \<Rightarrow> position_table \<Rightarrow> route \<Rightarrow> bool" where
  "route_orthogonal ents poss r =
     (case (edge ents poss (src r) (src_side r) (src_frac r),
            edge ents poss (tgt r) (tgt_side r) (tgt_frac r)) of
        (Inr (Some sp), Inr (Some tp)) \<Rightarrow> orthogonal ([sp] @ waypoints r @ [tp])
      | _ \<Rightarrow> False)"







text \<open>A route with its \<^verbatim>\<open>one_dir\<close> field replaced.\<close>

fun set_one_dir :: "string \<Rightarrow> route \<Rightarrow> route" where
  "set_one_dir d (Route s ss sf t ts tf wps od cd) = Route s ss sf t ts tf wps d cd"

text \<open>
  The calls \<open>m\<close> of one drawing step (or its error), put after the calls \<open>c\<close> that
  the canvas already holds.
\<close>

definition onto :: "canvas \<Rightarrow> error + canvas \<Rightarrow> error + canvas" where
  "onto c m = bind_err m (\<lambda>calls. Inr (c @ calls))"

section \<open>Properties\<close>

subsection \<open>Basic facts\<close>

lemma bind_err_Inr [simp]: "bind_err (Inr v) f = f v"
  by (simp add: bind_err_def)

lemma bind_err_Inl [simp]: "bind_err (Inl e) f = Inl e"
  by (simp add: bind_err_def)

lemma getitem_Some: "map_of d k = Some v \<Longrightarrow> getitem d k = Inr v"
  by (simp add: getitem_def)

lemma getitem_None: "map_of d k = None \<Longrightarrow> getitem d k = Inl (KeyError k)"
  by (simp add: getitem_def)

subsection \<open>Box height\<close>

text \<open>
  Claim C3. For an entity with attribute list \<open>cols\<close> and position \<open>(x, y)\<close>,
  \<^verbatim>\<open>entity_h\<close> returns exactly header height plus row height times the number of
  attributes plus the margin 2, and \<^verbatim>\<open>box\<close> returns
  \<open>(x, y, x + BOX_W, y + height)\<close>. The header height is 30 and the row height 24, so
  an entity with three attributes has a box 104 high.
\<close>

theorem box_height_exact:
  assumes "map_of ents name = Some cols" and "map_of poss name = Some (x, y)"
  shows "entity_h ents name = Inr (HEADER_H + int (length cols) * ROW_H + 2)
       \<and> box ents poss name = Inr (x, y, x + BOX_W, y + (HEADER_H + int (length cols) * ROW_H + 2))
       \<and> HEADER_H = 30 \<and> ROW_H = 24
       \<and> (length cols = 3 \<longrightarrow> box ents poss name = Inr (x, y, x + BOX_W, y + 104))"
proof -
  have h: "entity_h ents name = Inr (HEADER_H + int (length cols) * ROW_H + 2)"
    using assms(1) by (simp add: entity_h_def getitem_Some)
  have b: "box ents poss name = Inr (x, y, x + BOX_W, y + (HEADER_H + int (length cols) * ROW_H + 2))"
    using assms(2) h by (simp add: box_def getitem_Some)
  have three: "length cols = 3 \<Longrightarrow> HEADER_H + int (length cols) * ROW_H + 2 = 104"
    by (simp add: HEADER_H_def ROW_H_def)
  show ?thesis
    using h b three by (simp add: HEADER_H_def ROW_H_def)
qed

theorem box_height_exact_witness:
  "entity_h [(''E'', [(''id'', ''int'', False), (''name'', ''string'', False), (''ownerID'', ''int'', True)])] ''E''
     = Inr 104
   \<and> box [(''E'', [(''id'', ''int'', False), (''name'', ''string'', False), (''ownerID'', ''int'', True)])]
        [(''E'', (10, 20))] ''E'' = Inr (10, 20, 330, 124)"
proof -
  let ?ents = "[(''E'', [(''id'', ''int'', False), (''name'', ''string'', False), (''ownerID'', ''int'', True)])]"
  let ?poss = "[(''E'', (10 :: int, 20 :: int))]"
  have e: "map_of ?ents ''E'' = Some [(''id'', ''int'', False), (''name'', ''string'', False), (''ownerID'', ''int'', True)]"
    by simp
  have p: "map_of ?poss ''E'' = Some (10, 20)"
    by simp
  show ?thesis
    using box_height_exact [OF e p] by (simp add: BOX_W_def COL_W_def TYPE_W_def)
qed

subsection \<open>Tables and sizes of the script, for evaluation\<close>

lemmas table_defs = entities_def positions_def
lemmas size_defs = BOX_W_def COL_W_def TYPE_W_def ROW_H_def HEADER_H_def

lemma box_Conversation: "box entities positions ''Conversation'' = Inr (470, 460, 790, 708)"
  by (simp add: box_def entity_h_def getitem_def table_defs size_defs)

subsection \<open>Anchors\<close>





subsection \<open>Missing positions\<close>

lemma box_missing: "map_of poss name = None \<Longrightarrow> box ents poss name = Inl (KeyError name)"
  by (simp add: box_def getitem_None)

lemma box_error:
  assumes "box ents poss n = Inl e"
  shows "e = KeyError n \<and> (map_of poss n = None \<or> map_of ents n = None)"
proof (cases "map_of poss n")
  case None
  with assms show ?thesis by (simp add: box_missing)
next
  case (Some xy)
  obtain x y where xy: "xy = (x, y)" by (cases xy)
  show ?thesis
  proof (cases "map_of ents n")
    case None
    with assms Some xy show ?thesis
      by (simp add: box_def entity_h_def getitem_Some getitem_None)
  next
    case (Some cols)
    with assms \<open>map_of poss n = Some xy\<close> xy show ?thesis
      by (simp add: box_def entity_h_def getitem_Some)
  qed
qed

lemma edge_error:
  assumes "edge ents poss n s f = Inl e"
  shows "e = KeyError n \<and> (map_of poss n = None \<or> map_of ents n = None)"
proof (cases "box ents poss n")
  case (Inl e')
  with assms have "e' = e" by (simp add: edge_def)
  with box_error [OF Inl] show ?thesis by simp
next
  case (Inr b)
  with assms show ?thesis by (simp add: edge_def)
qed

lemma edge_valid_side:
  assumes "s \<in> side_letters" and "edge ents poss n s f = Inr p"
  shows "\<exists>xy. p = Some xy"
proof -
  from assms(2) obtain b where "box ents poss n = Inr b" and p: "p = edge_of_box b s f"
    by (cases "box ents poss n") (simp_all add: edge_def)
  obtain x1 y1 x2 y2 where "b = (x1, y1, x2, y2)" by (cases b)
  with assms(1) p show ?thesis
    by (auto simp: side_letters_def edge_of_box_def)
qed

lemma draw_ortho_line_points:
  "\<exists>c'. draw_ortho_line c (map Some ps) = Inr c'"
proof (induction ps arbitrary: c)
  case Nil
  show ?case by simp
next
  case (Cons p ps)
  show ?case
  proof (cases ps)
    case Nil
    then show ?thesis by simp
  next
    case (Cons q qs)
    with Cons.IH [of "c @ [Line p q LINE_COLOR (Some 1)]"] show ?thesis by simp
  qed
qed

lemma draw_source_mark_point:
  "\<exists>c'. draw_source_mark c (Some xy) s d = Inr c'"
  by (simp add: draw_source_mark_def unpack_def)

lemma draw_relationship_result:
  assumes "src_side r \<in> side_letters" and "tgt_side r \<in> side_letters"
  shows "(\<exists>c'. draw_relationship ents poss c r = Inr c')
       \<or> (\<exists>n. draw_relationship ents poss c r = Inl (KeyError n)
               \<and> (map_of poss n = None \<or> map_of ents n = None))"
proof (cases "edge ents poss (src r) (src_side r) (src_frac r)")
  case (Inl e)
  with edge_error [OF Inl] show ?thesis
    by (auto simp: draw_relationship_def)
next
  case sp: (Inr sp)
  from edge_valid_side [OF assms(1) sp] obtain a where a: "sp = Some a" ..
  show ?thesis
  proof (cases "edge ents poss (tgt r) (tgt_side r) (tgt_frac r)")
    case (Inl e)
    with edge_error [OF Inl] sp show ?thesis
      by (auto simp: draw_relationship_def)
  next
    case tp: (Inr tp)
    from edge_valid_side [OF assms(2) tp] obtain b where b: "tp = Some b" ..
    have pts: "route_points sp (waypoints r) tp = map Some (a # waypoints r @ [b])"
      by (simp add: route_points_def a b)
    from draw_ortho_line_points obtain c1
      where c1: "draw_ortho_line c (map Some (a # waypoints r @ [b])) = Inr c1" by blast
    from draw_source_mark_point obtain c2
      where c2: "draw_source_mark c1 (Some a) (src_side r) (one_dir r) = Inr c2" by blast
    have "draw_relationship ents poss c r = Inr (draw_crow_foot c2 (fst b) (snd b) (crow_dir r))"
      unfolding draw_relationship_def sp tp bind_err_Inr pts c1
      by (simp add: a b c2 unpack_def)
    then show ?thesis by blast
  qed
qed

lemma draw_relationship_missing:
  assumes "map_of poss (src r) = None \<or> map_of poss (tgt r) = None"
  shows "\<exists>n. draw_relationship ents poss c r = Inl (KeyError n)
             \<and> (map_of poss n = None \<or> map_of ents n = None)"
proof (cases "edge ents poss (src r) (src_side r) (src_frac r)")
  case (Inl e)
  with edge_error [OF Inl] show ?thesis
    by (auto simp: draw_relationship_def)
next
  case sp: (Inr sp)
  have "map_of poss (src r) \<noteq> None"
  proof
    assume "map_of poss (src r) = None"
    then have "edge ents poss (src r) (src_side r) (src_frac r) = Inl (KeyError (src r))"
      by (simp add: edge_def box_missing)
    with sp show False by simp
  qed
  with assms have "map_of poss (tgt r) = None" by simp
  then have "edge ents poss (tgt r) (tgt_side r) (tgt_frac r) = Inl (KeyError (tgt r))"
    by (simp add: edge_def box_missing)
  with sp \<open>map_of poss (tgt r) = None\<close> show ?thesis
    by (auto simp: draw_relationship_def)
qed

lemma draw_relationships_abort:
  assumes "r \<in> set rs" and "map_of poss (src r) = None \<or> map_of poss (tgt r) = None"
  shows "\<exists>e. draw_relationships ents poss c rs = Inl e"
  using assms(1)
proof (induction rs arbitrary: c)
  case Nil
  then show ?case by simp
next
  case (Cons q rs)
  show ?case
  proof (cases "draw_relationship ents poss c q")
    case (Inl e)
    then show ?thesis by simp
  next
    case (Inr c')
    with draw_relationship_missing [OF assms(2), of ents c] have "q \<noteq> r" by auto
    with Cons.prems have "r \<in> set rs" by simp
    from Cons.IH [OF this, of c'] Inr show ?thesis by simp
  qed
qed

lemma draw_relationships_abort_KeyError:
  assumes "r \<in> set rs" and "map_of poss (src r) = None \<or> map_of poss (tgt r) = None"
    and "\<forall>q \<in> set rs. src_side q \<in> side_letters \<and> tgt_side q \<in> side_letters"
  shows "\<exists>n. draw_relationships ents poss c rs = Inl (KeyError n)
             \<and> (map_of poss n = None \<or> map_of ents n = None)"
  using assms(1,3)
proof (induction rs arbitrary: c)
  case Nil
  then show ?case by simp
next
  case (Cons q rs)
  from Cons.prems(2) have sides: "src_side q \<in> side_letters" "tgt_side q \<in> side_letters"
    by simp_all
  from draw_relationship_result [OF sides, of ents poss c] show ?case
  proof
    assume "\<exists>c'. draw_relationship ents poss c q = Inr c'"
    then obtain c' where c': "draw_relationship ents poss c q = Inr c'" ..
    with draw_relationship_missing [OF assms(2), of ents c] have "q \<noteq> r" by auto
    with Cons.prems have "r \<in> set rs" by simp
    from Cons.IH [OF this, of c'] Cons.prems(2) c' show ?thesis by simp
  next
    assume "\<exists>n. draw_relationship ents poss c q = Inl (KeyError n)
               \<and> (map_of poss n = None \<or> map_of ents n = None)"
    then show ?thesis by auto
  qed
qed


lemma paint_abort:
  "draw_relationships ents poss [] rs = Inl e \<Longrightarrow> paint ents poss nts rs = Inl e"
  by (simp add: paint_def)

text \<open>
  Claim C4. For a name without a Position entry, \<^verbatim>\<open>box(name)\<close> and
  \<^verbatim>\<open>edge(name, side, frac)\<close> raise \<^verbatim>\<open>KeyError(name)\<close> for every side and fraction;
  they return no default point. So does \<^verbatim>\<open>draw_entity\<close>, and \<^verbatim>\<open>draw_relationship\<close> for
  a route whose source is that name. A route list that holds a route naming it (as source
  or target) makes the run end with an error instead of a picture; when every route of
  the list has valid side letters the error is the \<^verbatim>\<open>KeyError\<close> of a name that a table
  lacks.
\<close>

theorem missing_position_is_fatal:
  assumes "map_of poss name = None"
  shows "box ents poss name = Inl (KeyError name)
       \<and> edge ents poss name side fr = Inl (KeyError name)
       \<and> draw_entity ents poss c name = Inl (KeyError name)
       \<and> (src r = name \<longrightarrow> draw_relationship ents poss c r = Inl (KeyError name))
       \<and> (r \<in> set rs \<and> (src r = name \<or> tgt r = name) \<longrightarrow>
            (\<exists>e. paint ents poss nts rs = Inl e))
       \<and> (r \<in> set rs \<and> (src r = name \<or> tgt r = name)
            \<and> (\<forall>q \<in> set rs. src_side q \<in> side_letters \<and> tgt_side q \<in> side_letters) \<longrightarrow>
            (\<exists>n. paint ents poss nts rs = Inl (KeyError n)
                 \<and> (map_of poss n = None \<or> map_of ents n = None)))"
proof -
  have b: "box ents poss name = Inl (KeyError name)"
    using assms by (rule box_missing)
  have e: "edge ents poss name s f = Inl (KeyError name)" for s f
    by (simp add: edge_def b)
  have d: "draw_entity ents poss c name = Inl (KeyError name)"
    using assms by (simp add: draw_entity_def getitem_None)
  have s: "draw_relationship ents poss c r = Inl (KeyError name)" if "src r = name"
    using that e by (simp add: draw_relationship_def)
  have missing: "map_of poss (src r) = None \<or> map_of poss (tgt r) = None"
    if "src r = name \<or> tgt r = name"
    using that assms by auto
  have p: "\<exists>e. paint ents poss nts rs = Inl e"
    if "r \<in> set rs" "src r = name \<or> tgt r = name"
  proof -
    from draw_relationships_abort [OF that(1) missing [OF that(2)]]
    obtain e where "draw_relationships ents poss [] rs = Inl e" by blast
    then show ?thesis by (blast intro: paint_abort)
  qed
  have k: "\<exists>n. paint ents poss nts rs = Inl (KeyError n)
               \<and> (map_of poss n = None \<or> map_of ents n = None)"
    if "r \<in> set rs" "src r = name \<or> tgt r = name"
      "\<forall>q \<in> set rs. src_side q \<in> side_letters \<and> tgt_side q \<in> side_letters"
  proof -
    from draw_relationships_abort_KeyError [OF that(1) missing [OF that(2)] that(3)]
    obtain n where "draw_relationships ents poss [] rs = Inl (KeyError n)"
      and "map_of poss n = None \<or> map_of ents n = None" by blast
    then show ?thesis by (blast intro: paint_abort)
  qed
  from b e d s p k show ?thesis by blast
qed

theorem missing_position_is_fatal_witness:
  "box entities positions ''Ghost'' = Inl (KeyError ''Ghost'')
   \<and> edge entities positions ''Ghost'' ''L'' (1/2) = Inl (KeyError ''Ghost'')
   \<and> draw_entity entities positions [] ''Ghost'' = Inl (KeyError ''Ghost'')
   \<and> (\<exists>n. paint entities positions note_list
            [Route ''Conversation'' ''B'' 0.3 ''User'' ''T'' 0.3 [] ''V'' ''D'',
             Route ''User'' ''L'' 0.5 ''Ghost'' ''R'' 0.5 [] ''H'' ''R'']
          = Inl (KeyError n)
        \<and> (map_of positions n = None \<or> map_of entities n = None))"
proof -
  let ?r = "Route ''User'' ''L'' 0.5 ''Ghost'' ''R'' 0.5 [] ''H'' ''R''"
  let ?rs = "[Route ''Conversation'' ''B'' 0.3 ''User'' ''T'' 0.3 [] ''V'' ''D'', ?r]"
  have none: "map_of positions ''Ghost'' = None"
    by (simp add: positions_def)
  have mem: "?r \<in> set ?rs" and names: "src ?r = ''Ghost'' \<or> tgt ?r = ''Ghost''"
    and sides: "\<forall>q \<in> set ?rs. src_side q \<in> side_letters \<and> tgt_side q \<in> side_letters"
    by (simp_all add: side_letters_def)
  from missing_position_is_fatal [OF none, of entities "''L''" "1/2" "[]" ?r ?rs note_list]
    mem names sides
  show ?thesis by blast
qed

subsection \<open>The script's boxes and routes, evaluated\<close>

lemma boxes:
  "box entities positions ''Message'' = Inr (80, 500, 400, 724)"
  "box entities positions ''Roles'' = Inr (80, 1050, 400, 1202)"
  "box entities positions ''RolePolicy'' = Inr (80, 1260, 400, 1388)"
  "box entities positions ''Policy'' = Inr (80, 1480, 400, 1656)"
  "box entities positions ''Resource'' = Inr (470, 30, 790, 350)"
  "box entities positions ''User'' = Inr (470, 840, 790, 1136)"
  "box entities positions ''Vector'' = Inr (860, 30, 1180, 278)"
  "box entities positions ''Agent'' = Inr (860, 370, 1180, 618)"
  "box entities positions ''UserAgent'' = Inr (860, 760, 1180, 912)"
  "box entities positions ''UserTool'' = Inr (860, 940, 1180, 1092)"
  "box entities positions ''Usages'' = Inr (860, 1180, 1180, 1524)"
  "box entities positions ''Prompt'' = Inr (1610, 60, 1930, 260)"
  "box entities positions ''Model'' = Inr (1610, 340, 1930, 780)"
  "box entities positions ''AgentTool'' = Inr (1610, 790, 1930, 918)"
  "box entities positions ''Providers'' = Inr (2000, 60, 2320, 236)"
  "box entities positions ''Tool'' = Inr (2000, 640, 2320, 912)"
  "box entities positions ''Sessions'' = Inr (2000, 1020, 2320, 1172)"
  by (simp_all add: box_def entity_h_def getitem_def table_defs size_defs)

text \<open>What \<^verbatim>\<open>routes()\<close> returns on the script's tables: 26 routes.\<close>

lemma routes_value:
  "routes entities positions = Inr [
     Route ''Conversation'' ''L'' (3/10) ''Message'' ''R'' (3/10) [] ''H'' ''R'',
     Route ''Agent'' ''L'' (3/20) ''Conversation'' ''R'' (3/20) [] ''H'' ''L'',
     Route ''Conversation'' ''B'' (3/10) ''User'' ''T'' (3/10) [] ''V'' ''D'',
     Route ''Conversation'' ''T'' (3/10) ''Resource'' ''B'' (3/10) [] ''V'' ''U'',
     Route ''Conversation'' ''T'' (7/10) ''Vector'' ''B'' (3/10) [(694, 278)] ''V'' ''U'',
     Route ''Resource'' ''R'' (3/20) ''Vector'' ''L'' (3/20) [] ''H'' ''L'',
     Route ''Resource'' ''R'' (1/20) ''Tool'' ''L'' (1/20)
       [(800, 46), (800, 31), (1990, 31), (1990, 3268/5)] ''H'' ''L'',
     Route ''Vector'' ''R'' (1/20) ''Tool'' ''L'' (3/20)
       [(1190, 212/5), (1190, 62/5), (1990, 62/5), (1990, 3404/5)] ''H'' ''L'',
     Route ''Message'' ''T'' (7/10) ''Resource'' ''B'' (7/10) [(304, 365), (694, 365)] ''V'' ''U'',
     Route ''Agent'' ''R'' (1/5) ''Prompt'' ''L'' (1/2) [] ''H'' ''L'',
     Route ''Agent'' ''R'' (7/20) ''Model'' ''L'' (3/20) [(1240, 2284/5), (1240, 406)] ''H'' ''L'',
     Route ''User'' ''T'' (7/10) ''Agent'' ''B'' (7/10) [] ''V'' ''U'',
     Route ''Providers'' ''B'' (3/10) ''Model'' ''T'' (7/10) [(2096, 325), (1834, 325)] ''V'' ''D'',
     Route ''User'' ''L'' (7/20) ''Roles'' ''R'' (3/10) [] ''H'' ''R'',
     Route ''Roles'' ''B'' (1/2) ''RolePolicy'' ''T'' (1/2) [] ''V'' ''D'',
     Route ''Policy'' ''T'' (1/2) ''RolePolicy'' ''B'' (1/2) [] ''V'' ''U'',
     Route ''User'' ''R'' (3/20) ''UserAgent'' ''L'' (3/10) [] ''H'' ''L'',
     Route ''Agent'' ''B'' (3/10) ''UserAgent'' ''T'' (3/10) [] ''V'' ''D'',
     Route ''User'' ''R'' (1/2) ''UserTool'' ''L'' (3/10) [(810, 988), (810, 4928/5)] ''H'' ''L'',
     Route ''Tool'' ''L'' (7/10) ''UserTool'' ''R'' (3/10) [] ''H'' ''R'',
     Route ''Tool'' ''L'' (2/5) ''AgentTool'' ''R'' (3/10) [] ''H'' ''R'',
     Route ''Agent'' ''R'' (4/5) ''AgentTool'' ''L'' (3/10) [(1210, 2842/5), (1210, 4142/5)] ''H'' ''L'',
     Route ''User'' ''B'' (7/10) ''Usages'' ''L'' (3/20) [(694, 6158/5)] ''V'' ''L'',
     Route ''Agent'' ''B'' (1/2) ''Usages'' ''T'' (3/10) [(1020, 1165), (956, 1165)] ''V'' ''U'',
     Route ''Message'' ''B'' (1/2) ''Usages'' ''L'' (7/20) [(240, 6502/5)] ''V'' ''L'',
     Route ''Model'' ''B'' (3/10) ''Usages'' ''R'' (3/10) [(1706, 6416/5)] ''V'' ''R'']"
  by (simp add: routes_def routes_with_def edge_def boxes box_Conversation edge_of_box_def unpack_def Let_def)

subsection \<open>Referential integrity of the tables\<close>

lemma entity_names:
  "map fst entities = [''Resource'', ''Vector'', ''Message'', ''Conversation'', ''User'',
      ''Roles'', ''RolePolicy'', ''Policy'', ''Agent'', ''Prompt'', ''Model'', ''Providers'', ''Tool'',
      ''UserAgent'', ''UserTool'', ''AgentTool'', ''Usages'', ''Sessions'']"
  by (simp add: entities_def)

lemma position_names:
  "map fst positions = [''Message'', ''Roles'', ''RolePolicy'', ''Policy'', ''Resource'',
      ''Conversation'', ''User'', ''Vector'', ''Agent'', ''UserAgent'', ''UserTool'', ''Usages'',
      ''Prompt'', ''Model'', ''AgentTool'', ''Providers'', ''Tool'', ''Sessions'']"
  by (simp add: positions_def)

text \<open>
  Claim C6. The script's \<^verbatim>\<open>entities\<close> and \<^verbatim>\<open>positions\<close> have the same set of keys, each
  key once (every entity has exactly one position and no position is an orphan), and
  every route that \<^verbatim>\<open>routes()\<close> returns names, as source and as target, a key of both.
\<close>

theorem tables_referentially_intact:
  "set (map fst entities) = set (map fst positions)
   \<and> distinct (map fst entities) \<and> distinct (map fst positions)
   \<and> (\<exists>rs. routes entities positions = Inr rs
        \<and> (\<forall>r \<in> set rs. src r \<in> set (map fst entities) \<and> src r \<in> set (map fst positions)
                       \<and> tgt r \<in> set (map fst entities) \<and> tgt r \<in> set (map fst positions)))"
proof -
  have same: "set (map fst entities) = set (map fst positions)"
    unfolding entity_names position_names by code_simp
  have de: "distinct (map fst entities)"
    unfolding entity_names by code_simp
  have dp: "distinct (map fst positions)"
    unfolding position_names by code_simp
  have rs: "\<forall>r \<in> set rs. src r \<in> set (map fst entities) \<and> src r \<in> set (map fst positions)
                       \<and> tgt r \<in> set (map fst entities) \<and> tgt r \<in> set (map fst positions)"
    if "routes entities positions = Inr rs" for rs
  proof -
    from that routes_value have "Inr rs = routes entities positions" by simp
    then show ?thesis
      unfolding routes_value entity_names position_names by simp
  qed
  from same de dp rs routes_value show ?thesis by blast
qed

theorem tables_referentially_intact_witness:
  "''Conversation'' \<in> set (map fst positions) \<and> ''Message'' \<in> set (map fst entities)"
proof -
  from tables_referentially_intact obtain rs
    where rs: "routes entities positions = Inr rs"
      and names: "\<forall>r \<in> set rs. src r \<in> set (map fst entities) \<and> src r \<in> set (map fst positions)
                       \<and> tgt r \<in> set (map fst entities) \<and> tgt r \<in> set (map fst positions)"
    by blast
  from rs have "Route ''Conversation'' ''L'' (3/10) ''Message'' ''R'' (3/10) [] ''H'' ''R'' \<in> set rs"
    unfolding routes_value by auto
  with names show ?thesis by fastforce
qed

subsection \<open>Orthogonality of the routes\<close>

text \<open>
  Claim C1 says that the polyline of every route of \<^verbatim>\<open>routes()\<close>, source anchor, then
  waypoints, then target anchor, is orthogonal. On the script's tables it is not: the
  first route, commented \<^verbatim>\<open>(horizontal, same row)\<close>, has no waypoint and joins the anchor
  \<open>(470, 534.4)\<close> of Conversation to the anchor \<open>(400, 567.2)\<close> of Message, which
  differ in both coordinates, and \<^verbatim>\<open>draw_relationship\<close> draws that segment. Of the 26
  routes, 17 are orthogonal and 9 (numbers 0, 1, 5, 9, 11, 13, 16, 19 and 20, counted
  from 0) are not; each of the 9 has an empty waypoint list.
\<close>

theorem routes_not_all_orthogonal:
  "(\<exists>rs. routes entities positions = Inr rs
      \<and> hd rs = Route ''Conversation'' ''L'' 0.3 ''Message'' ''R'' 0.3 [] ''H'' ''R''
      \<and> map (route_orthogonal entities positions) rs =
          [False, False, True, True, True, False, True, True, True, False, True, False, True,
           False, True, True, False, True, True, False, False, True, True, True, True, True])
   \<and> edge entities positions ''Conversation'' ''L'' 0.3 = Inr (Some (470, 534.4))
   \<and> edge entities positions ''Message'' ''R'' 0.3 = Inr (Some (400, 567.2))
   \<and> \<not> orthogonal [(470, 534.4), (400, 567.2)]
   \<and> draw_relationship entities positions []
        (Route ''Conversation'' ''L'' 0.3 ''Message'' ''R'' 0.3 [] ''H'' ''R'') =
      Inr [Line (470, 534.4) (400, 567.2) LINE_COLOR (Some 1),
           Line (458, 526.4) (458, 542.4) LINE_COLOR (Some 2),
           Line (400, 567.2) (390, 560.2) LINE_COLOR (Some 2),
           Line (400, 567.2) (390, 567.2) LINE_COLOR (Some 2),
           Line (400, 567.2) (390, 574.2) LINE_COLOR (Some 2)]"
proof -
  have orth: "map (route_orthogonal entities positions) rs =
          [False, False, True, True, True, False, True, True, True, False, True, False, True,
           False, True, True, False, True, True, False, False, True, True, True, True, True]"
    and first: "hd rs = Route ''Conversation'' ''L'' 0.3 ''Message'' ''R'' 0.3 [] ''H'' ''R''"
    if "routes entities positions = Inr rs" for rs
  proof -
    from that routes_value have rs: "Inr rs = routes entities positions" by simp
    show "map (route_orthogonal entities positions) rs =
          [False, False, True, True, True, False, True, True, True, False, True, False, True,
           False, True, True, False, True, True, False, False, True, True, True, True, True]"
      using rs unfolding routes_value
      by (simp add: route_orthogonal_def edge_def boxes box_Conversation edge_of_box_def)
    show "hd rs = Route ''Conversation'' ''L'' 0.3 ''Message'' ''R'' 0.3 [] ''H'' ''R''"
      using rs unfolding routes_value by auto
  qed
  have s: "edge entities positions ''Conversation'' ''L'' 0.3 = Inr (Some (470, 534.4))"
    and t: "edge entities positions ''Message'' ''R'' 0.3 = Inr (Some (400, 567.2))"
    by (simp_all add: edge_def boxes box_Conversation edge_of_box_def)
  have d: "\<not> orthogonal [(470, 534.4), (400, 567.2)]"
    by simp
  have l: "draw_relationship entities positions []
        (Route ''Conversation'' ''L'' 0.3 ''Message'' ''R'' 0.3 [] ''H'' ''R'') =
      Inr [Line (470, 534.4) (400, 567.2) LINE_COLOR (Some 1),
           Line (458, 526.4) (458, 542.4) LINE_COLOR (Some 2),
           Line (400, 567.2) (390, 560.2) LINE_COLOR (Some 2),
           Line (400, 567.2) (390, 567.2) LINE_COLOR (Some 2),
           Line (400, 567.2) (390, 574.2) LINE_COLOR (Some 2)]"
    by (simp add: draw_relationship_def s t route_points_def draw_source_mark_def unpack_def
        draw_one_mark_def draw_crow_foot_def)
  from orth first routes_value s t d l show ?thesis by blast
qed

subsection \<open>Fonts of a note\<close>

lemma draw_note_lines_calls:
  "draw_note_lines c x y i lines =
     c @ map (\<lambda>(k, line). Text (ri (x + 8), ri (y + 6 + int k * 20)) line ''#333333'' (note_font k line))
           (zip [i ..< i + length lines] lines)"
proof (induction lines arbitrary: c i)
  case Nil
  show ?case by simp
next
  case (Cons l ls)
  have "[i ..< i + length (l # ls)] = i # [Suc i ..< Suc i + length ls]"
    by (simp add: upt_rec)
  with Cons.IH [of "c @ [Text (ri (x + 8), ri (y + 6 + int i * 20)) l ''#333333'' (note_font i l)]" "Suc i"]
  show ?case by simp
qed

lemma draw_note_calls:
  "draw_note c x y w lines =
     c @ Rectangle (ri x) (ri y) (ri (x + w)) (ri (y + (int (length lines) * 20 + 12)))
           (Some NOTE_BG) (Some NOTE_BORDER)
       # map (\<lambda>(k, line). Text (ri (x + 8), ri (y + 6 + int k * 20)) line ''#333333'' (note_font k line))
           (zip [0 ..< length lines] lines)"
  by (simp add: draw_note_def draw_note_lines_calls)

text \<open>
  Claim C8 says that a line of a note is drawn in the bold font if and only if it is the
  first line and has no leading indentation, no colon and no bracket. The test of line
  235 is narrower: it looks for a leading space, a colon and an opening square bracket
  only. A first line that starts with a tab, or that holds \<open>]\<close> but no \<open>[\<close>, is drawn
  with \<^verbatim>\<open>font_bold\<close>, which is the bold face when the font files load.
\<close>

theorem note_bold_counterexample:
  "draw_note [] 0 0 100 [''a]b''] ! 1 = Text (8, 6) ''a]b'' ''#333333'' font_bold
   \<and> CHR '']'' \<in> set ''a]b''
   \<and> draw_note [] 0 0 100 [[CHR 0x09, CHR ''T'']] ! 1
       = Text (8, 6) [CHR 0x09, CHR ''T''] ''#333333'' font_bold
   \<and> load_fonts (\<lambda>file. True) font_bold = TrueType ''arialbd.ttf'' 18
   \<and> load_fonts (\<lambda>file. True) font_note = TrueType ''arial.ttf'' 14"
  by (simp add: draw_note_calls note_font_def startswith_def load_fonts_def
      HEADER_FONT_SIZE_def NOTE_FONT_SIZE_def)

text \<open>
  Claim C8, amended. \<^verbatim>\<open>draw_note\<close> draws the background rectangle and then one text per
  line. The text of line \<open>i\<close> is drawn with \<^verbatim>\<open>font_bold\<close> if and only if it is the first
  line (\<open>i = 0\<close>), does not start with a space character and contains neither \<open>:\<close> nor
  \<open>[\<close>; every other line, so every line after the first, is drawn with \<^verbatim>\<open>font_note\<close>.
  When both font files load, \<^verbatim>\<open>font_bold\<close> is \<^verbatim>\<open>arialbd.ttf\<close> at size 18 and
  \<^verbatim>\<open>font_note\<close> is \<^verbatim>\<open>arial.ttf\<close> at size 14, so the line is drawn in the bold face exactly
  under that condition; when loading fails every line is drawn in the one default font.
\<close>

theorem note_line_font:
  assumes "i < length lines"
  shows "\<exists>f. draw_note c x y w lines ! (length c + 1 + i)
               = Text (ri (x + 8), ri (y + 6 + int i * 20)) (lines ! i) ''#333333'' f
           \<and> (f = font_bold \<longleftrightarrow>
                i = 0 \<and> (lines ! i = [] \<or> hd (lines ! i) \<noteq> CHR '' '')
                      \<and> CHR '':'' \<notin> set (lines ! i) \<and> CHR ''['' \<notin> set (lines ! i))
           \<and> (f \<noteq> font_bold \<longrightarrow> f = font_note)
           \<and> (load_fonts loads f = TrueType ''arialbd.ttf'' 18 \<longleftrightarrow>
                loads ''arial.ttf'' \<and> loads ''arialbd.ttf'' \<and> f = font_bold)
           \<and> (load_fonts loads f \<noteq> TrueType ''arialbd.ttf'' 18 \<longrightarrow>
                load_fonts loads f =
                  (if loads ''arial.ttf'' \<and> loads ''arialbd.ttf''
                   then TrueType ''arial.ttf'' 14 else DefaultFont))"
proof -
  let ?texts = "map (\<lambda>(k, line). Text (ri (x + 8), ri (y + 6 + int k * 20)) line ''#333333'' (note_font k line))
                  (zip [0 ..< length lines] lines)"
  let ?f = "note_font i (lines ! i)"
  have "draw_note c x y w lines ! (length c + 1 + i) = ?texts ! i"
    by (simp add: draw_note_calls nth_append)
  also from assms have "\<dots> = Text (ri (x + 8), ri (y + 6 + int i * 20)) (lines ! i) ''#333333'' ?f"
    by simp
  finally have call: "draw_note c x y w lines ! (length c + 1 + i)
      = Text (ri (x + 8), ri (y + 6 + int i * 20)) (lines ! i) ''#333333'' ?f" .
  have space: "startswith l '' '' \<longleftrightarrow> l \<noteq> [] \<and> hd l = CHR '' ''" for l
    by (cases l) (simp_all add: startswith_def)
  have bold: "?f = font_bold \<longleftrightarrow>
                i = 0 \<and> (lines ! i = [] \<or> hd (lines ! i) \<noteq> CHR '' '')
                      \<and> CHR '':'' \<notin> set (lines ! i) \<and> CHR ''['' \<notin> set (lines ! i)"
    by (auto simp: note_font_def space)
  have other: "?f \<noteq> font_bold \<longrightarrow> ?f = font_note"
    by (simp add: note_font_def)
  have face: "load_fonts loads ?f = TrueType ''arialbd.ttf'' 18 \<longleftrightarrow>
                loads ''arial.ttf'' \<and> loads ''arialbd.ttf'' \<and> ?f = font_bold"
    by (cases ?f) (simp_all add: load_fonts_def FONT_SIZE_def HEADER_FONT_SIZE_def NOTE_FONT_SIZE_def)
  have rest: "load_fonts loads ?f \<noteq> TrueType ''arialbd.ttf'' 18 \<longrightarrow>
                load_fonts loads ?f =
                  (if loads ''arial.ttf'' \<and> loads ''arialbd.ttf''
                   then TrueType ''arial.ttf'' 14 else DefaultFont)"
    by (simp add: load_fonts_def note_font_def HEADER_FONT_SIZE_def NOTE_FONT_SIZE_def)
  from call bold other face rest show ?thesis by blast
qed

theorem note_line_font_witness:
  "draw_note [] 1250 640 250 [''Model Parameters'', ''  temperature''] ! 1
     = Text (1258, 646) ''Model Parameters'' ''#333333'' font_bold
   \<and> draw_note [] 1250 640 250 [''Model Parameters'', ''  temperature''] ! 2
     = Text (1258, 666) ''  temperature'' ''#333333'' font_note
   \<and> draw_note [] 2000 920 240 [''type: [MCP]''] ! 1
     = Text (2008, 926) ''type: [MCP]'' ''#333333'' font_note
   \<and> load_fonts (\<lambda>file. True) font_bold = TrueType ''arialbd.ttf'' 18
   \<and> load_fonts (\<lambda>file. False) font_note = DefaultFont"
proof -
  have a: "(0::nat) < length [''Model Parameters'', ''  temperature'']"
    and b: "(1::nat) < length [''Model Parameters'', ''  temperature'']"
    and c: "(0::nat) < length [''type: [MCP]'']"
    by simp_all
  from note_line_font [OF a, of "[]" 1250 640 250 "\<lambda>file. True"]
       note_line_font [OF b, of "[]" 1250 640 250 "\<lambda>file. True"]
       note_line_font [OF c, of "[]" 2000 920 240 "\<lambda>file. False"]
  show ?thesis
    by (auto simp: numeral_2_eq_2)
qed

subsection \<open>The one mark and \<^verbatim>\<open>one_dir\<close>\<close>

lemma draw_source_mark_any_dir:
  "draw_source_mark c sp s d = draw_source_mark c sp s d'"
  by (simp add: draw_source_mark_def)

lemma draw_relationship_any_dir:
  "draw_relationship ents poss c (set_one_dir d r) = draw_relationship ents poss c r"
proof (cases r)
  case (Route s ss sf t ts tf wps od cd)
  have "draw_source_mark c1 sp ss d = draw_source_mark c1 sp ss od" for c1 sp
    by (rule draw_source_mark_any_dir)
  with Route show ?thesis
    by (simp add: draw_relationship_def)
qed

lemma draw_relationships_any_dir:
  "draw_relationships ents poss c (map (\<lambda>r. set_one_dir (g r) r) rs) = draw_relationships ents poss c rs"
  by (induction rs arbitrary: c) (simp_all add: draw_relationship_any_dir)

text \<open>
  Claim C10. The one mark does not depend on the route's \<^verbatim>\<open>one_dir\<close>: the \<^verbatim>\<open>'H'\<close>
  branch and the \<^verbatim>\<open>'V'\<close> branch of \<^verbatim>\<open>draw_relationship\<close> place the same mark for every
  source side and anchor. For the anchor \<open>(x, y)\<close> the mark is the tick of half-length 8
  centred 12 pixels from the anchor along the outward normal of the side: at \<open>x + 12\<close>
  for \<open>R\<close> and \<open>x - 12\<close> for \<open>L\<close> (a vertical tick), at \<open>y - 12\<close> for \<open>T\<close> and
  \<open>y + 12\<close> for \<open>B\<close> (a horizontal tick). So drawing a route, and painting a whole
  route list, give the same canvas whatever \<^verbatim>\<open>one_dir\<close> values are put in.
\<close>

theorem one_mark_independent_of_one_dir:
  "draw_source_mark c sp s ''H'' = draw_source_mark c sp s ''V''
   \<and> draw_source_mark c (Some (x, y)) ''R'' d
       = Inr (c @ [Line (x + 12, y - 8) (x + 12, y + 8) LINE_COLOR (Some 2)])
   \<and> draw_source_mark c (Some (x, y)) ''L'' d
       = Inr (c @ [Line (x - 12, y - 8) (x - 12, y + 8) LINE_COLOR (Some 2)])
   \<and> draw_source_mark c (Some (x, y)) ''T'' d
       = Inr (c @ [Line (x - 8, y - 12) (x + 8, y - 12) LINE_COLOR (Some 2)])
   \<and> draw_source_mark c (Some (x, y)) ''B'' d
       = Inr (c @ [Line (x - 8, y + 12) (x + 8, y + 12) LINE_COLOR (Some 2)])
   \<and> draw_relationship ents poss c (set_one_dir d r) = draw_relationship ents poss c r
   \<and> paint ents poss nts (map (\<lambda>r. set_one_dir (g r) r) rs) = paint ents poss nts rs"
proof -
  have marks:
    "draw_source_mark c (Some (x, y)) ''R'' d
       = Inr (c @ [Line (x + 12, y - 8) (x + 12, y + 8) LINE_COLOR (Some 2)])"
    "draw_source_mark c (Some (x, y)) ''L'' d
       = Inr (c @ [Line (x - 12, y - 8) (x - 12, y + 8) LINE_COLOR (Some 2)])"
    "draw_source_mark c (Some (x, y)) ''T'' d
       = Inr (c @ [Line (x - 8, y - 12) (x + 8, y - 12) LINE_COLOR (Some 2)])"
    "draw_source_mark c (Some (x, y)) ''B'' d
       = Inr (c @ [Line (x - 8, y + 12) (x + 8, y + 12) LINE_COLOR (Some 2)])"
    by (simp_all add: draw_source_mark_def unpack_def draw_one_mark_def)
  have p: "paint ents poss nts (map (\<lambda>r. set_one_dir (g r) r) rs) = paint ents poss nts rs"
    by (simp add: paint_def draw_relationships_any_dir)
  from marks p show ?thesis
    by (simp add: draw_source_mark_any_dir [of c sp s "''H''" "''V''"] draw_relationship_any_dir)
qed

subsection \<open>Layers of the picture\<close>

text \<open>Every drawing function appends its calls to the canvas it is given.\<close>

lemma onto_simps [simp]:
  "onto c (Inl e) = Inl e"
  "onto c (Inr calls) = Inr (c @ calls)"
  by (simp_all add: onto_def)






































subsection \<open>The script runs to completion\<close>

lemma draw_relationship_runs:
  assumes "src_side r \<in> side_letters" and "tgt_side r \<in> side_letters"
    and "box ents poss (src r) = Inr b1" and "box ents poss (tgt r) = Inr b2"
  shows "\<exists>c'. draw_relationship ents poss c r = Inr c'"
proof -
  have "edge ents poss (src r) (src_side r) (src_frac r) = Inr (edge_of_box b1 (src_side r) (src_frac r))"
    and "edge ents poss (tgt r) (tgt_side r) (tgt_frac r) = Inr (edge_of_box b2 (tgt_side r) (tgt_frac r))"
    using assms(3,4) by (simp_all add: edge_def)
  moreover from assms(1) obtain a where "edge_of_box b1 (src_side r) (src_frac r) = Some a"
    by (cases b1) (auto simp: side_letters_def edge_of_box_def)
  moreover from assms(2) obtain b where "edge_of_box b2 (tgt_side r) (tgt_frac r) = Some b"
    by (cases b2) (auto simp: side_letters_def edge_of_box_def)
  moreover from draw_ortho_line_points obtain c1
    where "draw_ortho_line c (map Some (a # waypoints r @ [b])) = Inr c1" by blast
  moreover from draw_source_mark_point obtain c2
    where "draw_source_mark c1 (Some a) (src_side r) (one_dir r) = Inr c2" by blast
  ultimately have "draw_relationship ents poss c r = Inr (draw_crow_foot c2 (fst b) (snd b) (crow_dir r))"
    by (simp add: draw_relationship_def route_points_def unpack_def)
  then show ?thesis by simp
qed

lemma draw_relationships_run:
  assumes "\<forall>r \<in> set rs. src_side r \<in> side_letters \<and> tgt_side r \<in> side_letters
             \<and> (\<exists>b. box ents poss (src r) = Inr b) \<and> (\<exists>b. box ents poss (tgt r) = Inr b)"
  shows "\<exists>c'. draw_relationships ents poss c rs = Inr c'"
  using assms
proof (induction rs arbitrary: c)
  case Nil
  show ?case by simp
next
  case (Cons r rs)
  from Cons.prems obtain b1 b2 where "src_side r \<in> side_letters" "tgt_side r \<in> side_letters"
    "box ents poss (src r) = Inr b1" "box ents poss (tgt r) = Inr b2"
    by auto
  from draw_relationship_runs [OF this, of c] obtain c1
    where "draw_relationship ents poss c r = Inr c1" ..
  moreover from Cons.IH [of c1] Cons.prems obtain c'
    where "draw_relationships ents poss c1 rs = Inr c'" by auto
  ultimately show ?case by simp
qed

lemma draw_entity_runs:
  assumes "map_of poss name = Some xy" and "map_of ents name = Some cols"
  shows "\<exists>c'. draw_entity ents poss c name = Inr c'"
  using assms by (cases xy) (simp add: draw_entity_def entity_h_def getitem_Some)

lemma draw_entities_run:
  assumes "\<forall>n \<in> set names. n \<in> fst ` set poss \<and> n \<in> fst ` set ents"
  shows "\<exists>c'. draw_entities ents poss c names = Inr c'"
  using assms
proof (induction names arbitrary: c)
  case Nil
  show ?case by simp
next
  case (Cons n ns)
  from Cons.prems have "map_of poss n \<noteq> None" and "map_of ents n \<noteq> None"
    by (simp_all add: map_of_eq_None_iff)
  then obtain xy cols where "map_of poss n = Some xy" "map_of ents n = Some cols"
    by blast
  from draw_entity_runs [OF this, of c] obtain c1 where "draw_entity ents poss c n = Inr c1" ..
  moreover from Cons.IH [of c1] Cons.prems obtain c'
    where "draw_entities ents poss c1 ns = Inr c'" by auto
  ultimately show ?case by simp
qed

lemma positioned_has_box:
  assumes "name \<in> set (map fst positions)"
  shows "\<exists>b. box entities positions name = Inr b"
  using assms unfolding position_names
  by (auto simp: boxes box_Conversation)

lemma routes_sides:
  assumes "routes entities positions = Inr rs"
  shows "\<forall>r \<in> set rs. src_side r \<in> side_letters \<and> tgt_side r \<in> side_letters"
proof -
  from assms routes_value have "Inr rs = routes entities positions" by simp
  then show ?thesis
    unfolding routes_value by (simp add: side_letters_def)
qed

lemma routes_names:
  assumes "routes entities positions = Inr rs"
  shows "\<forall>r \<in> set rs. src r \<in> set (map fst positions) \<and> tgt r \<in> set (map fst positions)"
proof -
  from assms routes_value have "Inr rs = routes entities positions" by simp
  then show ?thesis
    unfolding routes_value position_names by simp
qed

lemma entity_names_positioned:
  "\<forall>n \<in> set (map fst entities). n \<in> fst ` set positions \<and> n \<in> fst ` set entities"
proof -
  have "set (map fst entities) = set (map fst positions)"
    unfolding entity_names position_names by code_simp
  then show ?thesis by auto
qed

lemma script_paints:
  assumes "routes entities positions = Inr rs"
  shows "\<exists>canvas. paint entities positions note_list rs = Inr canvas"
proof -
  from routes_names [OF assms] routes_sides [OF assms] positioned_has_box
  have "\<forall>r \<in> set rs. src_side r \<in> side_letters \<and> tgt_side r \<in> side_letters
             \<and> (\<exists>b. box entities positions (src r) = Inr b) \<and> (\<exists>b. box entities positions (tgt r) = Inr b)"
    by blast
  from draw_relationships_run [OF this, of "[]"] obtain c1
    where c1: "draw_relationships entities positions [] rs = Inr c1" ..
  from draw_entities_run [OF entity_names_positioned, of c1] obtain c2
    where c2: "draw_entities entities positions c1 (map fst entities) = Inr c2" ..
  from c1 c2 show ?thesis
    by (simp add: paint_def)
qed

lemma main_runs: "\<exists>canvas. main = Inr canvas"
  using script_paints [OF routes_value] by (simp add: main_def routes_value)



subsection \<open>Sides that \<^verbatim>\<open>edge\<close> does not know\<close>

lemma routes_with_valid_sides_only:
  assumes "\<forall>n s f. s \<in> side_letters \<longrightarrow> e1 n s f = e2 n s f"
  shows "routes_with e1 = routes_with e2"
proof -
  from assms have "e1 n ''L'' f = e2 n ''L'' f" "e1 n ''R'' f = e2 n ''R'' f"
    "e1 n ''T'' f = e2 n ''T'' f" "e1 n ''B'' f = e2 n ''B'' f" for n f
    by (simp_all add: side_letters_def)
  then show ?thesis
    by (simp add: routes_with_def)
qed

text \<open>
  Claim C9. For an entity whose box can be computed (in the script's tables: every
  entity with a position), \<^verbatim>\<open>edge\<close> with a side that is none of \<open>L\<close>, \<open>R\<close>, \<open>T\<close>,
  \<open>B\<close> returns \<^verbatim>\<open>None\<close> and raises nothing, and with one of the four letters it returns
  a point. Every call site passes one of the four letters: \<^verbatim>\<open>routes()\<close> depends on
  \<^verbatim>\<open>edge\<close> only through its values at the four letters, and every route it returns has
  such a letter as \<^verbatim>\<open>src_side\<close> and \<^verbatim>\<open>tgt_side\<close>, which are the sides that
  \<^verbatim>\<open>draw_relationship\<close> passes on. So the \<^verbatim>\<open>None\<close> branch is not reached, and the run
  of the script ends with a picture, not with the \<^verbatim>\<open>TypeError\<close> that a \<^verbatim>\<open>None\<close> anchor
  would cause.
\<close>

theorem edge_None_only_for_unknown_side:
  "(box ents poss name = Inr b \<and> side \<notin> side_letters \<longrightarrow> edge ents poss name side fr = Inr None)
   \<and> (box ents poss name = Inr b \<and> side \<in> side_letters \<longrightarrow>
        (\<exists>p. edge ents poss name side fr = Inr (Some p)))
   \<and> (name \<in> set (map fst positions) \<and> side \<notin> side_letters \<longrightarrow>
        edge entities positions name side fr = Inr None)
   \<and> ((\<forall>n s f. s \<in> side_letters \<longrightarrow> e1 n s f = e2 n s f) \<longrightarrow> routes_with e1 = routes_with e2)
   \<and> (\<exists>rs. routes entities positions = Inr rs
         \<and> (\<forall>r \<in> set rs. src_side r \<in> side_letters \<and> tgt_side r \<in> side_letters))
   \<and> (\<exists>canvas. main = Inr canvas)"
proof -
  have none: "edge es ps n side fr = Inr None" if "box es ps n = Inr b'" "side \<notin> side_letters"
    for es ps n b'
    using that by (cases b') (simp add: edge_def edge_of_box_def side_letters_def)
  have some: "\<exists>p. edge ents poss name side fr = Inr (Some p)"
    if "box ents poss name = Inr b" "side \<in> side_letters"
    using that by (cases b) (auto simp: edge_def edge_of_box_def side_letters_def)
  have script: "edge entities positions name side fr = Inr None"
    if "name \<in> set (map fst positions)" "side \<notin> side_letters"
    using positioned_has_box [OF that(1)] none that(2) by blast
  from routes_sides [OF routes_value] routes_value
  have sites: "\<exists>rs. routes entities positions = Inr rs
         \<and> (\<forall>r \<in> set rs. src_side r \<in> side_letters \<and> tgt_side r \<in> side_letters)"
    by blast
  from none [of ents poss name b] some script routes_with_valid_sides_only [of e1 e2] sites main_runs
  show ?thesis by blast
qed

theorem edge_None_only_for_unknown_side_witness:
  "edge entities positions ''Conversation'' ''X'' (1/2) = Inr None
   \<and> (\<exists>p. edge entities positions ''Conversation'' ''L'' (1/2) = Inr (Some p))
   \<and> edge entities positions ''Sessions'' ''left'' 0 = Inr None"
proof -
  have x: "''X'' \<notin> side_letters" and l: "''L'' \<in> side_letters" and w: "''left'' \<notin> side_letters"
    by (simp_all add: side_letters_def)
  have s: "''Sessions'' \<in> set (map fst positions)"
    by (simp add: position_names)
  from edge_None_only_for_unknown_side
         [of entities positions "''Conversation''" "(470, 460, 790, 708)" "''X''" "1/2"]
       edge_None_only_for_unknown_side
         [of entities positions "''Conversation''" "(470, 460, 790, 708)" "''L''" "1/2"]
       edge_None_only_for_unknown_side
         [of entities positions "''Sessions''" "(0, 0, 0, 0)" "''left''" 0]
       box_Conversation x l w s
  show ?thesis by blast
qed

end
